theory Spec2Isabelle
  imports Complex_Main "HOL-Library.AList"
begin

section \<open>Passwordless e-mail authentication: the service of main.py\<close>

text \<open>
  The service keeps two SQLite tables (sqllite3.py): \<open>users (email TEXT PRIMARY KEY, otp TEXT,
  timestamp REAL)\<close> and \<open>blacklisted_tokens (token TEXT PRIMARY KEY)\<close>. Every route handler of
  main.py opens a connection, runs its statements and commits; the model passes the database
  explicitly and returns it updated. A raised exception is the left summand of the result, the
  returned dictionary the right one. An exception that no handler of main.py catches
  (\<open>TypeError\<close>, \<open>sqlite3.IntegrityError\<close>) is a result like any other: it leaves the route
  handler.

  Time. \<open>time.time()\<close> is a double-precision number of seconds and the column \<open>timestamp\<close> holds
  such a number or NULL. A double is the real number it stands for (\<open>is_double\<close> tells which
  reals are doubles); the one arithmetic operation on doubles in main.py, the subtraction in
  \<open>verify_otp\<close>, is \<open>float_sub\<close>: the exact difference rounded to the nearest double, ties to
  the even one. \<open>datetime.utcnow()\<close> and \<open>timedelta\<close> count whole microseconds and Python adds
  them exactly; they are modelled as reals, in seconds: a point in time since the epoch and a
  duration.
\<close>

subsection \<open>Double-precision subtraction\<close>

text \<open>
  IEEE 754 binary64, as Python's \<open>float\<close>: a finite double is \<open>m * 2 ^ e\<close> with
  \<open>\<bar>m\<bar> < 2 ^ 53\<close> and \<open>- 1074 \<le> e \<le> 971\<close>.
\<close>

definition is_double :: "real \<Rightarrow> bool" where
  "is_double x \<longleftrightarrow>
     (\<exists>m e. \<bar>m\<bar> < 2 ^ 53 \<and> - 1074 \<le> e \<and> e \<le> 971 \<and> x = real_of_int m * 2 powi e)"

text \<open>Rounding to the nearest integer, a tie going to the even one.\<close>

definition round_half_even :: "real \<Rightarrow> int" where
  "round_half_even r =
     (let f = \<lfloor>r\<rfloor> in
      if r - of_int f < 1 / 2 then f
      else if 1 / 2 < r - of_int f then f + 1
      else if even f then f else f + 1)"

text \<open>
  The doubles around \<open>z\<close> are the multiples of \<open>2 ^ ulp_exponent z\<close>: 52 binary places below
  the leading bit of \<open>z\<close>, and never finer than the subnormal doubles.
\<close>

definition ulp_exponent :: "real \<Rightarrow> int" where
  "ulp_exponent z = max \<lfloor>log 2 \<bar>z\<bar>\<rfloor> (- 1022) - 52"

text \<open>
  \<open>round64 z\<close> is the double nearest to \<open>z\<close>. Beyond the largest double Python's result is an
  infinity; here it is a number as large, which compares with 180 as the infinity does.
\<close>

definition round64 :: "real \<Rightarrow> real" where
  "round64 z =
     (if z = 0 then 0
      else of_int (round_half_even (z / 2 powi ulp_exponent z)) * 2 powi ulp_exponent z)"

definition float_sub :: "real \<Rightarrow> real \<Rightarrow> real" where
  "float_sub x y = round64 (x - y)"

subsection \<open>Data\<close>

datatype exn =
    HTTPException nat string
  | TypeError
  | IntegrityError

datatype pyval = PyNone | PyStr string | PyInt int | PyDatetime real

text \<open>A Python dictionary with string keys, in insertion order.\<close>

type_synonym payload = "(string \<times> pyval) list"

datatype response =
    Message string
  | Bearer string string
  | TokenValid string pyval

record user_row =
  otp :: "string option"
  timestamp :: "real option"

record db =
  users :: "string \<rightharpoonup> user_row"
  blacklisted_tokens :: "string set"

text \<open>The exceptions of the token library; all of them are subclasses of \<open>jwt.PyJWTError\<close>.\<close>

datatype pyjwt_error =
    DecodeError
  | InvalidSignatureError
  | InvalidAlgorithmError
  | ExpiredSignatureError

text \<open>
  What main.py takes from outside the repository: the secret key read from the process
  environment, the two functions of the token library it calls
  (\<open>jwt.encode(payload, key, algorithm)\<close> and \<open>jwt.decode(token, key, algorithms)\<close>, the latter
  also reading the clock, in seconds, which is its last argument here), and the SMTP session of
  \<open>smtp_connection\<close>: \<open>sendmail env to text\<close> tells whether connecting, logging in and sending
  \<open>text\<close> to \<open>to\<close> completes without raising.
\<close>

record env =
  SECRET_KEY :: string
  jwt_encode :: "payload \<Rightarrow> string \<Rightarrow> string \<Rightarrow> string"
  jwt_decode :: "string \<Rightarrow> string \<Rightarrow> string list \<Rightarrow> real \<Rightarrow> pyjwt_error + payload"
  sendmail :: "string \<Rightarrow> string \<Rightarrow> bool"

definition ALGORITHM :: string where
  "ALGORITHM = ''HS256''"

definition ACCESS_TOKEN_EXPIRE_MINUTES :: int where
  "ACCESS_TOKEN_EXPIRE_MINUTES = 30"

definition timedelta_minutes :: "int \<Rightarrow> real" where
  "timedelta_minutes m = of_int m * 60"

subsection \<open>Helpers of main.py\<close>

text \<open>\<open>send_email\<close>: True when the message went out, False when anything raised.\<close>

definition send_email :: "env \<Rightarrow> string \<Rightarrow> string \<Rightarrow> bool" where
  "send_email e to_email code = sendmail e to_email (''Your OTP code is '' @ code)"

definition digits :: string where
  "digits = ''0123456789''"

text \<open>
  \<open>generate_otp\<close>: \<open>rnd i\<close> is the number the random source yields at the \<open>i\<close>-th draw of
  \<open>random.choice\<close>.
\<close>

definition generate_otp :: "(nat \<Rightarrow> nat) \<Rightarrow> nat \<Rightarrow> string" where
  "generate_otp rnd len = map (\<lambda>i. digits ! (rnd i mod length digits)) [0..<len]"

text \<open>
  \<open>create_access_token\<close>: \<open>if expires_delta:\<close> is false for \<open>None\<close> and for a zero duration.
  \<open>utcnow\<close> is the reading of \<open>datetime.utcnow()\<close>.
\<close>

definition create_access_token :: "env \<Rightarrow> payload \<Rightarrow> real option \<Rightarrow> real \<Rightarrow> string" where
  "create_access_token e data expires_delta utcnow =
     (let expire =
            (case expires_delta of
               None \<Rightarrow> utcnow + timedelta_minutes ACCESS_TOKEN_EXPIRE_MINUTES
             | Some delta \<Rightarrow>
                 if delta \<noteq> 0 then utcnow + delta
                 else utcnow + timedelta_minutes ACCESS_TOKEN_EXPIRE_MINUTES);
          to_encode = AList.update ''exp'' (PyDatetime expire) data
      in jwt_encode e to_encode (SECRET_KEY e) ALGORITHM)"

text \<open>
  \<open>verify_token\<close>: \<open>payload.get("sub")\<close> is \<open>None\<close> when the key is missing and when its value
  is \<open>None\<close>. The \<open>HTTPException\<close> raised inside the \<open>try\<close> is not a \<open>PyJWTError\<close> and leaves
  the function as it is.
\<close>

definition verify_token :: "env \<Rightarrow> real \<Rightarrow> string \<Rightarrow> exn + pyval" where
  "verify_token e now token =
     (case jwt_decode e token (SECRET_KEY e) [ALGORITHM] now of
        Inl err \<Rightarrow> Inl (HTTPException 401 ''Invalid token'')
      | Inr payload \<Rightarrow>
          (case map_of payload ''sub'' of
             None \<Rightarrow> Inl (HTTPException 401 ''Invalid token'')
           | Some PyNone \<Rightarrow> Inl (HTTPException 401 ''Invalid token'')
           | Some email \<Rightarrow> Inr email))"

definition is_token_blacklisted :: "string \<Rightarrow> db \<Rightarrow> bool" where
  "is_token_blacklisted token d = (token \<in> blacklisted_tokens d)"

subsection \<open>Route handlers\<close>

definition register_user :: "string \<Rightarrow> db \<Rightarrow> (exn + response) \<times> db" where
  "register_user email d =
     (case users d email of
        Some user \<Rightarrow> (Inl (HTTPException 400 ''Email already registered''), d)
      | None \<Rightarrow>
          (Inr (Message ''User registered successfully''),
           d\<lparr>users := (users d)(email \<mapsto> \<lparr>otp = None, timestamp = None\<rparr>)\<rparr>))"

text \<open>
  \<open>send_otp\<close>: the row is updated and committed before the message is sent. \<open>now\<close> is the
  reading of \<open>time.time()\<close>.
\<close>

definition send_otp :: "env \<Rightarrow> (nat \<Rightarrow> nat) \<Rightarrow> real \<Rightarrow> string \<Rightarrow> db \<Rightarrow> (exn + response) \<times> db" where
  "send_otp e rnd now email d =
     (case users d email of
        None \<Rightarrow> (Inl (HTTPException 400 ''Email not allowed''), d)
      | Some user \<Rightarrow>
          (let code = generate_otp rnd 6;
               d' = d\<lparr>users := (users d)(email \<mapsto> \<lparr>otp = Some code, timestamp = Some now\<rparr>)\<rparr>
           in if send_email e email code then (Inr (Message ''OTP sent''), d')
              else (Inl (HTTPException 500 ''Failed to send email''), d')))"

text \<open>
  \<open>verify_otp\<close>: \<open>current_time\<close> is the reading of \<open>time.time()\<close> at the start of the handler,
  \<open>utcnow\<close> the reading of \<open>datetime.utcnow()\<close> inside \<open>create_access_token\<close>. When the column
  \<open>timestamp\<close> is NULL, \<open>current_time - timestamp\<close> subtracts \<open>None\<close> from a float and Python
  raises \<open>TypeError\<close>; otherwise it is a subtraction of doubles, and its rounded result is
  compared with 180. \<open>stored_otp != otp\<close> holds when the column \<open>otp\<close> is NULL.
\<close>

definition verify_otp ::
    "env \<Rightarrow> real \<Rightarrow> real \<Rightarrow> string \<Rightarrow> string \<Rightarrow> db \<Rightarrow> (exn + response) \<times> db" where
  "verify_otp e current_time utcnow email code d =
     (case users d email of
        None \<Rightarrow> (Inl (HTTPException 404 ''OTP not found''), d)
      | Some result \<Rightarrow>
          (case timestamp result of
             None \<Rightarrow> (Inl TypeError, d)
           | Some ts \<Rightarrow>
               if float_sub current_time ts > 180 then
                 (Inl (HTTPException 400 ''OTP expired''),
                  d\<lparr>users := (users d)(email \<mapsto> \<lparr>otp = None, timestamp = None\<rparr>)\<rparr>)
               else if otp result \<noteq> Some code then
                 (Inl (HTTPException 400 ''Invalid OTP''), d)
               else
                 (Inr (Bearer
                    (create_access_token e [(''sub'', PyStr email)]
                       (Some (timedelta_minutes ACCESS_TOKEN_EXPIRE_MINUTES)) utcnow)
                    ''bearer''),
                  d\<lparr>users := (users d)(email \<mapsto> \<lparr>otp = None, timestamp = None\<rparr>)\<rparr>)))"

text \<open>\<open>token_check\<close> only reads the database. \<open>now\<close> is the clock the token library reads.\<close>

definition token_check :: "env \<Rightarrow> real \<Rightarrow> string \<Rightarrow> db \<Rightarrow> exn + response" where
  "token_check e now token d =
     (if is_token_blacklisted token d then Inl (HTTPException 401 ''Token has been revoked'')
      else
        (case verify_token e now token of
           Inl err \<Rightarrow> Inl err
         | Inr email \<Rightarrow> Inr (TokenValid ''Token is valid'' email)))"

text \<open>
  \<open>logout\<close>: a plain \<open>INSERT\<close> into a table whose only column is its primary key. SQLite
  refuses a second row with the same key and \<open>sqlite3\<close> raises \<open>IntegrityError\<close>; the handler
  has no \<open>except\<close>.
\<close>

definition logout :: "string \<Rightarrow> db \<Rightarrow> (exn + response) \<times> db" where
  "logout token d =
     (if token \<in> blacklisted_tokens d then (Inl IntegrityError, d)
      else
        (Inr (Message ''Successfully logged out''),
         d\<lparr>blacklisted_tokens := insert token (blacklisted_tokens d)\<rparr>))"

text \<open>The database right after sqllite3.py created the two tables.\<close>

definition empty_db :: db where
  "empty_db = \<lparr>users = Map.empty, blacklisted_tokens = {}\<rparr>"

subsection \<open>What the token library does with the tokens of the service\<close>

text \<open>
  The token library (PyJWT, version 2) is not part of the repository. This is what it does
  with the one kind of token the service mints, a payload of a string \<open>sub\<close> and a point in
  time \<open>exp\<close> signed under the service's key with HS256, when the service hands the token
  back with the same key and algorithm. \<open>encode\<close> writes \<open>exp\<close> as a whole number of seconds,
  rounded down. \<open>decode\<close> finds the signature right, raises \<open>ExpiredSignatureError\<close> when that
  number is not greater than the clock, and otherwise returns the payload as the token
  carries it. Nothing is said about other payloads, keys or algorithms.
\<close>

definition pyjwt_mint_verify :: "env \<Rightarrow> bool" where
  "pyjwt_mint_verify e \<longleftrightarrow>
     (\<forall>s t now.
        jwt_decode e
          (jwt_encode e [(''sub'', PyStr s), (''exp'', PyDatetime t)] (SECRET_KEY e) ALGORITHM)
          (SECRET_KEY e) [ALGORITHM] now =
        (if of_int \<lfloor>t\<rfloor> \<le> now then Inl ExpiredSignatureError
         else Inr [(''sub'', PyStr s), (''exp'', PyInt \<lfloor>t\<rfloor>)]))"

subsection \<open>A reference token codec\<close>

text \<open>
  The theorems about the handlers hold for every token library. To run the handlers on
  concrete inputs, and to show that \<open>pyjwt_mint_verify\<close> can be met, this is a small codec
  over strings. A number is written in unary and closed by \<open>0\<close>, a string is preceded by its
  length, a payload by the number of its items, and a point in time is written as its whole
  seconds, rounded down, so that it decodes as an integer. The tag stands where HMAC-SHA256
  stands in a real token and is rebuilt and compared on decoding; it is in no way secret.
\<close>

definition enc_nat :: "nat \<Rightarrow> string" where
  "enc_nat n = replicate n CHR ''1'' @ ''0''"

fun dec_nat :: "string \<Rightarrow> (nat \<times> string) option" where
  "dec_nat [] = None"
| "dec_nat (c # cs) =
     (if c = CHR ''0'' then Some (0, cs)
      else if c = CHR ''1'' then
        (case dec_nat cs of None \<Rightarrow> None | Some (n, r) \<Rightarrow> Some (Suc n, r))
      else None)"

definition enc_str :: "string \<Rightarrow> string" where
  "enc_str s = enc_nat (length s) @ s"

definition dec_str :: "string \<Rightarrow> (string \<times> string) option" where
  "dec_str t =
     (case dec_nat t of
        None \<Rightarrow> None
      | Some (n, r) \<Rightarrow> if n \<le> length r then Some (take n r, drop n r) else None)"

definition enc_int :: "int \<Rightarrow> string" where
  "enc_int i = (if i < 0 then CHR ''-'' else CHR ''+'') # enc_nat (nat \<bar>i\<bar>)"

fun dec_int :: "string \<Rightarrow> (int \<times> string) option" where
  "dec_int [] = None"
| "dec_int (c # cs) =
     (if c = CHR ''-'' then
        (case dec_nat cs of None \<Rightarrow> None | Some (n, r) \<Rightarrow> Some (- int n, r))
      else if c = CHR ''+'' then
        (case dec_nat cs of None \<Rightarrow> None | Some (n, r) \<Rightarrow> Some (int n, r))
      else None)"

fun json_of :: "pyval \<Rightarrow> pyval" where
  "json_of (PyDatetime t) = PyInt \<lfloor>t\<rfloor>"
| "json_of v = v"

fun enc_val :: "pyval \<Rightarrow> string" where
  "enc_val PyNone = ''n''"
| "enc_val (PyStr s) = CHR ''s'' # enc_str s"
| "enc_val (PyInt i) = CHR ''i'' # enc_int i"
| "enc_val (PyDatetime t) = CHR ''i'' # enc_int \<lfloor>t\<rfloor>"

fun dec_val :: "string \<Rightarrow> (pyval \<times> string) option" where
  "dec_val [] = None"
| "dec_val (c # cs) =
     (if c = CHR ''n'' then Some (PyNone, cs)
      else if c = CHR ''s'' then
        (case dec_str cs of None \<Rightarrow> None | Some (s, r) \<Rightarrow> Some (PyStr s, r))
      else if c = CHR ''i'' then
        (case dec_int cs of None \<Rightarrow> None | Some (i, r) \<Rightarrow> Some (PyInt i, r))
      else None)"

fun enc_items :: "payload \<Rightarrow> string" where
  "enc_items [] = []"
| "enc_items ((k, v) # kvs) = enc_str k @ enc_val v @ enc_items kvs"

fun dec_items :: "nat \<Rightarrow> string \<Rightarrow> (payload \<times> string) option" where
  "dec_items 0 t = Some ([], t)"
| "dec_items (Suc n) t =
     (case dec_str t of
        None \<Rightarrow> None
      | Some (k, r) \<Rightarrow>
          (case dec_val r of
             None \<Rightarrow> None
           | Some (v, r') \<Rightarrow>
               (case dec_items n r' of
                  None \<Rightarrow> None
                | Some (kvs, r'') \<Rightarrow> Some ((k, v) # kvs, r''))))"

definition enc_payload :: "payload \<Rightarrow> string" where
  "enc_payload p = enc_nat (length p) @ enc_items p"

definition dec_payload :: "string \<Rightarrow> (payload \<times> string) option" where
  "dec_payload t = (case dec_nat t of None \<Rightarrow> None | Some (n, r) \<Rightarrow> dec_items n r)"

definition ref_mac :: "string \<Rightarrow> string \<Rightarrow> string" where
  "ref_mac key msg = key @ msg"

definition ref_encode :: "payload \<Rightarrow> string \<Rightarrow> string \<Rightarrow> string" where
  "ref_encode p key alg =
     enc_str alg @ enc_payload p @ enc_str (ref_mac key (enc_str alg @ enc_payload p))"

definition ref_decode :: "string \<Rightarrow> string \<Rightarrow> string list \<Rightarrow> real \<Rightarrow> pyjwt_error + payload" where
  "ref_decode token key algorithms now =
     (case dec_str token of
        None \<Rightarrow> Inl DecodeError
      | Some (alg, r) \<Rightarrow>
          (case dec_payload r of
             None \<Rightarrow> Inl DecodeError
           | Some (p, r') \<Rightarrow>
               (case dec_str r' of
                  None \<Rightarrow> Inl DecodeError
                | Some (tag, r'') \<Rightarrow>
                    if r'' \<noteq> [] then Inl DecodeError
                    else if alg \<notin> set algorithms then Inl InvalidAlgorithmError
                    else if tag \<noteq> ref_mac key (enc_str alg @ enc_payload p)
                      then Inl InvalidSignatureError
                    else
                      (case map_of p ''exp'' of
                         None \<Rightarrow> Inr p
                       | Some (PyInt t) \<Rightarrow>
                           if of_int t \<le> now then Inl ExpiredSignatureError else Inr p
                       | Some v \<Rightarrow> Inl DecodeError))))"

subsection \<open>Concrete environments and runs\<close>

definition smtp_up :: "string \<Rightarrow> string \<Rightarrow> bool" where
  "smtp_up to_email text = True"

definition smtp_down :: "string \<Rightarrow> string \<Rightarrow> bool" where
  "smtp_down to_email text = False"

definition ref_env :: env where
  "ref_env =
     \<lparr>SECRET_KEY = ''your_secret_key'', jwt_encode = ref_encode, jwt_decode = ref_decode,
      sendmail = smtp_up\<rparr>"

definition ref_env_smtp_down :: env where
  "ref_env_smtp_down = ref_env\<lparr>sendmail := smtp_down\<rparr>"

text \<open>A random source that draws 0, 1, 2, ...: the code it generates is \<open>012345\<close>.\<close>

definition count_up :: "nat \<Rightarrow> nat" where
  "count_up i = i"

text \<open>
  One run: \<open>a@x.com\<close> registers, asks for a code at time 1000 and redeems it at time 1060.
\<close>

definition db_registered :: db where
  "db_registered = snd (register_user ''a@x.com'' empty_db)"

definition db_challenged :: db where
  "db_challenged = snd (send_otp ref_env count_up 1000 ''a@x.com'' db_registered)"

definition db_redeemed :: db where
  "db_redeemed = snd (verify_otp ref_env 1060 1060 ''a@x.com'' ''012345'' db_challenged)"

text \<open>
  Another run, with the clock at the start of the epoch: \<open>a@x.com\<close> asks for a code at the
  double nearest to 0.4, which is \<open>3602879701896397 / 2 ^ 53\<close>. The double nearest to 180.4 is
  \<open>6347260724825293 / 2 ^ 45\<close>.
\<close>

definition db_challenged_early :: db where
  "db_challenged_early =
     snd (send_otp ref_env count_up (3602879701896397 / 2 ^ 53) ''a@x.com'' db_registered)"

text \<open>A token for \<open>a@x.com\<close> signed with a key that is not the service's.\<close>

definition forged_token :: string where
  "forged_token =
     ref_encode [(''sub'', PyStr ''a@x.com''), (''exp'', PyDatetime 5000)] ''not_the_key'' ALGORITHM"

text \<open>A token signed with the service's key whose payload has no \<open>sub\<close>.\<close>

definition anonymous_token :: string where
  "anonymous_token = ref_encode [(''exp'', PyDatetime 5000)] ''your_secret_key'' ALGORITHM"

section \<open>The reference codec does what the token library does\<close>

lemma dec_nat_enc_nat: "dec_nat (enc_nat n @ r) = Some (n, r)"
  by (induction n) (simp_all add: enc_nat_def)

lemma dec_str_enc_str: "dec_str (enc_str s @ r) = Some (s, r)"
  by (simp add: dec_str_def enc_str_def dec_nat_enc_nat)

lemma dec_str_enc_str_end: "dec_str (enc_str s) = Some (s, [])"
  using dec_str_enc_str [of s "[]"] by simp

lemma dec_int_enc_int: "dec_int (enc_int i @ r) = Some (i, r)"
  by (simp add: enc_int_def dec_nat_enc_nat)

lemma dec_val_enc_val: "dec_val (enc_val v @ r) = Some (json_of v, r)"
  by (cases v) (simp_all add: dec_str_enc_str dec_int_enc_int)

lemma dec_items_enc_items:
  "dec_items (length p) (enc_items p @ r) = Some (map (\<lambda>(k, v). (k, json_of v)) p, r)"
  by (induction p) (auto simp: dec_str_enc_str dec_val_enc_val)

lemma dec_payload_enc_payload:
  "dec_payload (enc_payload p @ r) = Some (map (\<lambda>(k, v). (k, json_of v)) p, r)"
  by (simp add: dec_payload_def enc_payload_def dec_nat_enc_nat dec_items_enc_items)

lemma enc_val_json_of: "enc_val (json_of v) = enc_val v"
  by (cases v) simp_all

lemma enc_items_json_of: "enc_items (map (\<lambda>(k, v). (k, json_of v)) p) = enc_items p"
  by (induction p) (auto simp: enc_val_json_of)

lemma enc_payload_json_of: "enc_payload (map (\<lambda>(k, v). (k, json_of v)) p) = enc_payload p"
  by (simp add: enc_payload_def enc_items_json_of)

lemma map_of_json_of:
  "map_of (map (\<lambda>(k, v). (k, json_of v)) p) k = map_option json_of (map_of p k)"
  by (induction p) auto

lemma ref_decode_ref_encode:
  assumes "map_of p ''exp'' = Some (PyDatetime t)"
  shows "ref_decode (ref_encode p key alg) key [alg] now =
     (if of_int \<lfloor>t\<rfloor> \<le> now then Inl ExpiredSignatureError
      else Inr (map (\<lambda>(k, v). (k, json_of v)) p))"
  using assms
  by (simp add: ref_decode_def ref_encode_def dec_str_enc_str dec_str_enc_str_end
      dec_payload_enc_payload enc_payload_json_of map_of_json_of)

lemma pyjwt_mint_verify_ref_env: "pyjwt_mint_verify ref_env"
  unfolding pyjwt_mint_verify_def
proof (intro allI)
  fix s and t now :: real
  have "map_of [(''sub'', PyStr s), (''exp'', PyDatetime t)] ''exp'' = Some (PyDatetime t)"
    by simp
  from ref_decode_ref_encode [OF this, of "SECRET_KEY ref_env" ALGORITHM now]
  show "jwt_decode ref_env
          (jwt_encode ref_env [(''sub'', PyStr s), (''exp'', PyDatetime t)] (SECRET_KEY ref_env)
             ALGORITHM)
          (SECRET_KEY ref_env) [ALGORITHM] now =
        (if of_int \<lfloor>t\<rfloor> \<le> now then Inl ExpiredSignatureError
         else Inr [(''sub'', PyStr s), (''exp'', PyInt \<lfloor>t\<rfloor>)])"
    by (simp add: ref_env_def)
qed

section \<open>Rounding to a double, and the comparison with 180\<close>

lemma round_half_even_lower: "\<lfloor>r\<rfloor> \<le> round_half_even r"
  by (simp add: round_half_even_def Let_def)

lemma round_half_even_upper: "round_half_even r \<le> \<lfloor>r\<rfloor> + 1"
  by (simp add: round_half_even_def Let_def)

lemma round_half_even_gt_even:
  assumes "even N"
  shows "N < round_half_even r \<longleftrightarrow> of_int N + 1 / 2 < r"
proof
  assume gt: "N < round_half_even r"
  show "of_int N + 1 / 2 < r"
  proof (cases "N < \<lfloor>r\<rfloor>")
    case True
    then have "of_int N + 1 \<le> (of_int \<lfloor>r\<rfloor> :: real)"
      by linarith
    then show ?thesis by linarith
  next
    case False
    with gt round_half_even_upper [of r] have fl: "\<lfloor>r\<rfloor> = N" and up: "round_half_even r = N + 1"
      by linarith+
    from up fl assms show ?thesis
      by (auto simp: round_half_even_def Let_def split: if_splits)
  qed
next
  assume gt: "of_int N + 1 / 2 < r"
  then have "N \<le> \<lfloor>r\<rfloor>"
    by linarith
  show "N < round_half_even r"
  proof (cases "N < \<lfloor>r\<rfloor>")
    case True
    with round_half_even_lower [of r] show ?thesis by linarith
  next
    case False
    with \<open>N \<le> \<lfloor>r\<rfloor>\<close> have fl: "\<lfloor>r\<rfloor> = N" by linarith
    with gt show ?thesis
      by (simp add: round_half_even_def Let_def)
  qed
qed

lemma powr_2_int: "2 powr real_of_int k = (2::real) powi k"
  by (simp add: powr_real_of_int')

lemma floor_log2_bounds:
  assumes "0 < z"
  shows "2 powi \<lfloor>log 2 z\<rfloor> \<le> z" and "z < 2 powi (\<lfloor>log 2 z\<rfloor> + 1)"
proof -
  have "2 powr real_of_int \<lfloor>log 2 z\<rfloor> \<le> z \<and> z < 2 powr real_of_int (\<lfloor>log 2 z\<rfloor> + 1)"
    using floor_log_eq_powr_iff [of z 2 "\<lfloor>log 2 z\<rfloor>"] assms by simp
  then show "2 powi \<lfloor>log 2 z\<rfloor> \<le> z" and "z < 2 powi (\<lfloor>log 2 z\<rfloor> + 1)"
    unfolding powr_2_int by simp_all
qed

lemma round64_nonpos:
  assumes "z \<le> 0"
  shows "round64 z \<le> 0"
proof (cases "z = 0")
  case True
  then show ?thesis by (simp add: round64_def)
next
  case False
  with assms have neg: "z < 0" by simp
  define k where "k = ulp_exponent z"
  have pos: "(0::real) < 2 powi k"
    by simp
  with neg have "z / 2 powi k < 0"
    by (simp add: divide_neg_pos)
  then have "\<lfloor>z / 2 powi k\<rfloor> < 0"
    by linarith
  with round_half_even_upper [of "z / 2 powi k"] have "round_half_even (z / 2 powi k) \<le> 0"
    by linarith
  then have "real_of_int (round_half_even (z / 2 powi k)) * 2 powi k \<le> 0"
    using pos by (simp add: mult_le_0_iff)
  with False show ?thesis
    by (simp add: round64_def k_def)
qed

lemma round64_small:
  assumes "0 < z" and "z < 128"
  shows "round64 z \<le> 128"
proof -
  define e where "e = \<lfloor>log 2 z\<rfloor>"
  define k where "k = ulp_exponent z"
  have k_eq: "k = max e (- 1022) - 52"
    using assms by (simp add: k_def e_def ulp_exponent_def)
  have "2 powi e \<le> z" and up: "z < 2 powi (e + 1)"
    using floor_log2_bounds [OF assms(1)] by (simp_all add: e_def)
  with assms(2) have "(2::real) powi e < 2 powi 7"
    by simp
  then have "e < 7"
    using power_int_le_imp_less_exp [of "2::real" e 7] by simp
  with k_eq have k_le: "k + 53 \<le> 7" and e_le: "e + 1 \<le> k + 53"
    by simp_all
  have pos: "(0::real) < 2 powi k"
    by simp
  have "z < 2 powi (k + 53)"
    using up power_int_increasing [OF e_le, of "2::real"] by simp
  also have "(2::real) powi (k + 53) = 2 powi 53 * 2 powi k"
    by (simp add: power_int_add)
  finally have "z / 2 powi k < 2 powi 53"
    using pos by (simp add: pos_divide_less_eq)
  then have "z / 2 powi k < of_int (2 ^ 53)"
    by simp
  then have "\<lfloor>z / 2 powi k\<rfloor> < 2 ^ 53"
    by (simp only: floor_less_iff)
  with round_half_even_upper [of "z / 2 powi k"] have "round_half_even (z / 2 powi k) \<le> 2 ^ 53"
    by linarith
  then have "real_of_int (round_half_even (z / 2 powi k)) \<le> 2 powi 53"
    by (metis of_int_le_iff of_int_numeral of_int_power power_int_numeral)
  then have "real_of_int (round_half_even (z / 2 powi k)) * 2 powi k \<le> 2 powi 53 * 2 powi k"
    using pos by (simp only: mult_le_cancel_right_pos)
  also have "(2::real) powi 53 * 2 powi k = 2 powi (k + 53)"
    by (simp add: power_int_add)
  also have "\<dots> \<le> 2 powi 7"
    using power_int_increasing [OF k_le, of "2::real"] by simp
  finally show ?thesis
    using assms by (simp add: round64_def k_def)
qed

lemma round64_large:
  assumes "256 \<le> z"
  shows "256 \<le> round64 z"
proof -
  define e where "e = \<lfloor>log 2 z\<rfloor>"
  define k where "k = ulp_exponent z"
  from assms have zpos: "0 < z" by simp
  have low: "2 powi e \<le> z" and up: "z < 2 powi (e + 1)"
    using floor_log2_bounds [OF zpos] by (simp_all add: e_def)
  with assms have "(2::real) powi 8 < 2 powi (e + 1)"
    by simp
  then have "8 < e + 1"
    using power_int_increasing [of "e + 1" 8 "2::real"] by (cases "e + 1 \<le> 8") simp_all
  then have e_ge: "8 \<le> e" by simp
  have k_eq: "k = e - 52"
    using zpos e_ge by (simp add: k_def e_def ulp_exponent_def)
  have pos: "(0::real) < 2 powi k"
    by simp
  have split: "(2::real) powi e = 2 powi 52 * 2 powi k"
    by (simp add: k_eq power_int_diff power_int_add)
  with low have "2 powi 52 \<le> z / 2 powi k"
    using pos by (simp add: pos_le_divide_eq)
  then have "of_int (2 ^ 52) \<le> z / 2 powi k"
    by simp
  then have "2 ^ 52 \<le> \<lfloor>z / 2 powi k\<rfloor>"
    by (simp only: le_floor_iff)
  with round_half_even_lower [of "z / 2 powi k"] have "2 ^ 52 \<le> round_half_even (z / 2 powi k)"
    by linarith
  then have "2 powi 52 \<le> real_of_int (round_half_even (z / 2 powi k))"
    by (metis of_int_le_iff of_int_numeral of_int_power power_int_numeral)
  then have "2 powi 52 * 2 powi k \<le> real_of_int (round_half_even (z / 2 powi k)) * 2 powi k"
    using pos by (simp only: mult_le_cancel_right_pos)
  with split have "2 powi e \<le> round64 z"
    using zpos by (simp add: round64_def k_def)
  moreover have "(2::real) powi 8 \<le> 2 powi e"
    using power_int_increasing [OF e_ge, of "2::real"] by simp
  ultimately show ?thesis by simp
qed

lemma round64_binade_7:
  assumes "128 \<le> z" and "z < 256"
  shows "round64 z = real_of_int (round_half_even (z * 2 ^ 45)) / 2 ^ 45"
proof -
  from assms have zpos: "0 < z" by simp
  have "\<lfloor>log 2 z\<rfloor> = 7"
    using floor_log_eq_powr_iff [of z 2 7] assms zpos by (simp add: powr_2_int [of 7, simplified] powr_2_int [of 8, simplified])
  then have "ulp_exponent z = - 45"
    using zpos by (simp add: ulp_exponent_def)
  then show ?thesis
    using zpos by (simp add: round64_def power_int_minus field_simps)
qed

lemma round64_gt_180_iff: "180 < round64 z \<longleftrightarrow> 180 + 1 / 2 ^ 46 < z"
proof -
  consider "z \<le> 0" | "0 < z" "z < 128" | "128 \<le> z" "z < 256" | "256 \<le> z"
    by linarith
  then show ?thesis
  proof cases
    case 1
    with round64_nonpos [of z] show ?thesis by simp
  next
    case 2
    with round64_small [of z] show ?thesis by simp
  next
    case 3
    have ev: "even (180 * 2 ^ 45 :: int)"
      by simp
    have "180 < round64 z \<longleftrightarrow> 180 * 2 ^ 45 < round_half_even (z * 2 ^ 45)"
      unfolding round64_binade_7 [OF 3]
      by (simp add: pos_less_divide_eq)
    also have "\<dots> \<longleftrightarrow> of_int (180 * 2 ^ 45) + 1 / 2 < z * 2 ^ 45"
      by (rule round_half_even_gt_even [OF ev])
    also have "\<dots> \<longleftrightarrow> 180 + 1 / 2 ^ 46 < z"
      by (simp add: field_simps)
    finally show ?thesis .
  next
    case 4
    with round64_large [of z] show ?thesis by simp
  qed
qed


lemma float_sub_gt_180_iff: "180 < float_sub x y \<longleftrightarrow> y + 180 + 1 / 2 ^ 46 < x"
  unfolding float_sub_def round64_gt_180_iff by linarith

lemma float_sub_le_180: "x \<le> y + 180 \<Longrightarrow> \<not> 180 < float_sub x y"
proof -
  assume "x \<le> y + 180"
  moreover have "(0::real) < 1 / 2 ^ 46"
    by simp
  ultimately show ?thesis
    unfolding float_sub_gt_180_iff by linarith
qed

lemma double_ge_128_multiple:
  assumes "is_double x" and "128 \<le> x"
  shows "\<exists>n::int. x = real_of_int n / 2 ^ 45"
proof -
  from assms(1) obtain m e where m: "\<bar>m\<bar> < 2 ^ 53" and x: "x = real_of_int m * 2 powi e"
    unfolding is_double_def by blast
  have pos: "(0::real) < 2 powi e"
    by simp
  from m have "real_of_int m < 2 powi 53"
    by (metis abs_less_iff of_int_less_iff of_int_numeral of_int_power power_int_numeral)
  then have "real_of_int m * 2 powi e < 2 powi 53 * 2 powi e"
    using pos by (simp only: mult_less_cancel_right_pos)
  then have "x < 2 powi 53 * 2 powi e"
    unfolding x .
  moreover have "(2::real) powi 7 = 128"
    by simp
  ultimately have "(2::real) powi 7 < 2 powi 53 * 2 powi e"
    using assms(2) by linarith
  also have "(2::real) powi 53 * 2 powi e = 2 powi (e + 53)"
    by (simp add: power_int_add)
  finally have "7 < e + 53"
    using power_int_increasing [of "e + 53" 7 "2::real"] by (cases "e + 53 \<le> 7") simp_all
  then have e: "0 \<le> e + 45"
    by simp
  have "(2::real) powi e = 2 powi (e + 45) / 2 powi 45"
    by (simp add: power_int_add)
  also have "(2::real) powi (e + 45) = 2 ^ nat (e + 45)"
    using e by (simp add: power_int_def)
  finally have "x = real_of_int (m * 2 ^ nat (e + 45)) / 2 ^ 45"
    using x by simp
  then show ?thesis ..
qed

lemma float_sub_gt_180_doubles:
  assumes "is_double t" and "is_double now" and "180 \<le> t" and "t + 180 < now"
  shows "180 < float_sub now t"
proof -
  from assms obtain a b :: int where t: "t = real_of_int a / 2 ^ 45" and now: "now = real_of_int b / 2 ^ 45"
    using double_ge_128_multiple [of t] double_ge_128_multiple [of now] by force
  from assms(4) have "real_of_int (a + 180 * 2 ^ 45) < real_of_int b"
    unfolding t now by (simp add: field_simps)
  then have "a + 180 * 2 ^ 45 < b"
    by (simp only: of_int_less_iff)
  then have "a + 180 * 2 ^ 45 + 1 \<le> b"
    by simp
  then have "real_of_int (a + 180 * 2 ^ 45 + 1) \<le> real_of_int b"
    by (simp only: of_int_le_iff)
  then have "t + 180 + 1 / 2 ^ 45 \<le> now"
    unfolding t now by (simp add: field_simps)
  moreover have "(1::real) / 2 ^ 46 < 1 / 2 ^ 45"
    by simp
  ultimately show ?thesis
    unfolding float_sub_gt_180_iff by linarith
qed

lemma is_double_int: "\<bar>m\<bar> < 2 ^ 53 \<Longrightarrow> is_double (real_of_int m)"
  unfolding is_double_def by (rule exI [of _ m], rule exI [of _ 0]) simp

lemma is_double_1000: "is_double 1000"
  using is_double_int [of 1000] by simp

lemma is_double_near_04: "is_double (3602879701896397 / 2 ^ 53)"
  unfolding is_double_def
  by (rule exI [of _ 3602879701896397], rule exI [of _ "- 53"]) (simp add: power_int_minus field_simps)

lemma is_double_near_1804: "is_double (6347260724825293 / 2 ^ 45)"
  unfolding is_double_def
  by (rule exI [of _ 6347260724825293], rule exI [of _ "- 45"]) (simp add: power_int_minus field_simps)

section \<open>The concrete run, evaluated\<close>

lemma generate_otp_count_up: "generate_otp count_up 6 = ''012345''"
  by (simp add: generate_otp_def count_up_def digits_def upt_rec)

lemma db_registered_eq:
  "db_registered =
     \<lparr>users = [''a@x.com'' \<mapsto> \<lparr>otp = None, timestamp = None\<rparr>], blacklisted_tokens = {}\<rparr>"
  by (simp add: db_registered_def register_user_def empty_db_def)

lemma db_challenged_eq:
  "db_challenged =
     \<lparr>users = [''a@x.com'' \<mapsto> \<lparr>otp = Some ''012345'', timestamp = Some 1000\<rparr>],
      blacklisted_tokens = {}\<rparr>"
  by (simp add: db_challenged_def db_registered_eq send_otp_def generate_otp_count_up Let_def
      send_email_def ref_env_def smtp_up_def)

lemma db_redeemed_eq: "db_redeemed = db_registered"
  by (simp add: db_redeemed_def db_challenged_eq db_registered_eq verify_otp_def
      float_sub_gt_180_iff)

lemma db_challenged_early_eq:
  "db_challenged_early =
     \<lparr>users =
        [''a@x.com'' \<mapsto> \<lparr>otp = Some ''012345'', timestamp = Some (3602879701896397 / 2 ^ 53)\<rparr>],
      blacklisted_tokens = {}\<rparr>"
  by (simp add: db_challenged_early_def db_registered_eq send_otp_def generate_otp_count_up
      Let_def send_email_def ref_env_def smtp_up_def)

lemma forged_token_decode:
  "jwt_decode ref_env forged_token (SECRET_KEY ref_env) [ALGORITHM] now = Inl InvalidSignatureError"
  by (simp add: forged_token_def ref_env_def ref_decode_def ref_encode_def dec_str_enc_str
      dec_str_enc_str_end dec_payload_enc_payload enc_payload_json_of ref_mac_def)

section \<open>Registration\<close>

text \<open>
  C7. For an email that has no row in \<open>users\<close>, \<open>register_user\<close> succeeds and inserts the row
  with both \<open>otp\<close> and \<open>timestamp\<close> NULL (no pending challenge). For an email that has a row,
  whatever the row holds, it raises HTTP 400 "Email already registered" and leaves the
  database as it was.
\<close>

theorem register_user_fresh_or_already_registered:
  "(users d email = None \<longrightarrow>
      register_user email d =
        (Inr (Message ''User registered successfully''),
         d\<lparr>users := (users d)(email \<mapsto> \<lparr>otp = None, timestamp = None\<rparr>)\<rparr>)) \<and>
   (users d email \<noteq> None \<longrightarrow>
      register_user email d = (Inl (HTTPException 400 ''Email already registered''), d))"
  by (auto simp: register_user_def)

theorem register_user_fresh_or_already_registered_witness:
  "users empty_db ''a@x.com'' = None \<and>
   register_user ''a@x.com'' empty_db =
     (Inr (Message ''User registered successfully''),
      empty_db\<lparr>users := (users empty_db)(''a@x.com'' \<mapsto> \<lparr>otp = None, timestamp = None\<rparr>)\<rparr>) \<and>
   users (snd (register_user ''a@x.com'' empty_db)) ''a@x.com'' \<noteq> None \<and>
   register_user ''a@x.com'' (snd (register_user ''a@x.com'' empty_db)) =
     (Inl (HTTPException 400 ''Email already registered''),
      snd (register_user ''a@x.com'' empty_db))"
proof -
  have fresh: "users empty_db ''a@x.com'' = None"
    by (simp add: empty_db_def)
  from fresh have first: "register_user ''a@x.com'' empty_db =
     (Inr (Message ''User registered successfully''),
      empty_db\<lparr>users := (users empty_db)(''a@x.com'' \<mapsto> \<lparr>otp = None, timestamp = None\<rparr>)\<rparr>)"
    using register_user_fresh_or_already_registered [of empty_db "''a@x.com''"] by blast
  have present: "users (snd (register_user ''a@x.com'' empty_db)) ''a@x.com'' \<noteq> None"
    by (simp add: first)
  from present have second:
    "register_user ''a@x.com'' (snd (register_user ''a@x.com'' empty_db)) =
       (Inl (HTTPException 400 ''Email already registered''),
        snd (register_user ''a@x.com'' empty_db))"
    using register_user_fresh_or_already_registered
            [of "snd (register_user ''a@x.com'' empty_db)" "''a@x.com''"] by blast
  from fresh first present second show ?thesis by blast
qed

section \<open>Revocation\<close>

text \<open>
  C2. The claim is that revoking a credential twice succeeds both times. The code inserts the
  token with a plain \<open>INSERT\<close>: the first \<open>logout\<close> of a token succeeds and records it, the
  second one violates the primary key of \<open>blacklisted_tokens\<close> and leaves the handler with the
  uncaught \<open>IntegrityError\<close>. The run below starts from the empty database.
\<close>

theorem logout_twice_raises_IntegrityError:
  "logout ''abc'' empty_db =
     (Inr (Message ''Successfully logged out''), empty_db\<lparr>blacklisted_tokens := {''abc''}\<rparr>) \<and>
   logout ''abc'' (snd (logout ''abc'' empty_db)) =
     (Inl IntegrityError, empty_db\<lparr>blacklisted_tokens := {''abc''}\<rparr>)"
  by (simp add: logout_def empty_db_def)

section \<open>Requesting a challenge\<close>

text \<open>
  C8. For a registered email, when sending the message fails, \<open>send_otp\<close> raises HTTP 500
  "Failed to send email", and the row already holds the new code and its timestamp: the
  update was committed before the message was sent and nothing undoes it.
\<close>

theorem send_otp_delivery_failure_keeps_challenge:
  assumes "users d email = Some row"
    and "\<not> send_email e email (generate_otp rnd 6)"
  shows "send_otp e rnd now email d =
     (Inl (HTTPException 500 ''Failed to send email''),
      d\<lparr>users := (users d)(email \<mapsto> \<lparr>otp = Some (generate_otp rnd 6), timestamp = Some now\<rparr>)\<rparr>)"
  using assms by (simp add: send_otp_def Let_def)

theorem send_otp_delivery_failure_keeps_challenge_witness:
  "users db_registered ''a@x.com'' = Some \<lparr>otp = None, timestamp = None\<rparr> \<and>
   \<not> send_email ref_env_smtp_down ''a@x.com'' (generate_otp count_up 6) \<and>
   send_otp ref_env_smtp_down count_up 1000 ''a@x.com'' db_registered =
     (Inl (HTTPException 500 ''Failed to send email''), db_challenged)"
proof -
  have row: "users db_registered ''a@x.com'' = Some \<lparr>otp = None, timestamp = None\<rparr>"
    by (simp add: db_registered_eq)
  have down: "\<not> send_email ref_env_smtp_down ''a@x.com'' (generate_otp count_up 6)"
    by (simp add: send_email_def ref_env_smtp_down_def smtp_down_def)
  have "send_otp ref_env_smtp_down count_up 1000 ''a@x.com'' db_registered =
     (Inl (HTTPException 500 ''Failed to send email''), db_challenged)"
    using send_otp_delivery_failure_keeps_challenge [OF row down, of 1000]
    by (simp add: db_registered_eq db_challenged_eq generate_otp_count_up)
  with row down show ?thesis by blast
qed

section \<open>Redeeming a challenge\<close>

text \<open>
  Whatever the clock and the supplied code, a row whose \<open>timestamp\<close> is NULL makes the
  handler raise \<open>TypeError\<close> and changes nothing.
\<close>

lemma verify_otp_null_timestamp:
  "users d email = Some row \<Longrightarrow> timestamp row = None \<Longrightarrow>
   verify_otp e current_time utcnow email code d = (Inl TypeError, d)"
  by (simp add: verify_otp_def)

text \<open>
  C1. The claim is that redeeming a code for a registered email that has no pending challenge
  fails with the error for a missing challenge. The code answers HTTP 404 "OTP not found"
  only when the email has no row at all. A registered email with no pending challenge has a
  row whose \<open>otp\<close> and \<open>timestamp\<close> are NULL, and \<open>current_time - timestamp\<close> raises
  \<open>TypeError\<close> before any check: so it is right after registration, and so it is right after
  a successful redemption, which sets both columns to NULL.
\<close>

theorem verify_otp_without_challenge_raises_TypeError:
  "verify_otp ref_env 1060 1060 ''a@x.com'' ''012345'' db_registered = (Inl TypeError, db_registered) \<and>
   verify_otp ref_env 1060 1060 ''a@x.com'' ''012345'' db_challenged =
     (Inr (Bearer
        (ref_encode [(''sub'', PyStr ''a@x.com''), (''exp'', PyDatetime 2860)]
           ''your_secret_key'' ''HS256'')
        ''bearer''),
      db_redeemed) \<and>
   verify_otp ref_env 1061 1061 ''a@x.com'' ''012345'' db_redeemed = (Inl TypeError, db_redeemed)"
  by (simp add: verify_otp_def db_redeemed_eq db_registered_eq db_challenged_eq
      create_access_token_def ref_env_def ALGORITHM_def timedelta_minutes_def
      ACCESS_TOKEN_EXPIRE_MINUTES_def float_sub_gt_180_iff)

text \<open>
  C4, as the code has it. The handler compares the double-precision difference
  \<open>current_time - timestamp\<close> with 180, and that difference is greater than 180 exactly when
  the time is later than \<open>t + 180 + 2 ^ - 46\<close> (\<open>float_sub_gt_180_iff\<close>), half a step between
  doubles beyond \<open>t + 180\<close>. When both readings are doubles and \<open>t\<close> is at least 180 seconds
  after the epoch, every time later than \<open>t + 180\<close> is that late (\<open>float_sub_gt_180_doubles\<close>).
  In both cases the handler sets \<open>otp\<close> and \<open>timestamp\<close> to NULL and raises HTTP 400
  "OTP expired". The result does not mention the supplied code: it is the same for every code,
  the stored one included.
\<close>

theorem verify_otp_expired_clears_challenge:
  assumes "users d email = Some \<lparr>otp = Some stored, timestamp = Some t\<rparr>"
    and "t + 180 + 1 / 2 ^ 46 < current_time \<or>
         (is_double t \<and> is_double current_time \<and> 180 \<le> t \<and> t + 180 < current_time)"
  shows "verify_otp e current_time utcnow email code d =
     (Inl (HTTPException 400 ''OTP expired''),
      d\<lparr>users := (users d)(email \<mapsto> \<lparr>otp = None, timestamp = None\<rparr>)\<rparr>)"
proof -
  from assms(2) have "180 < float_sub current_time t"
    using float_sub_gt_180_iff [of current_time t] float_sub_gt_180_doubles [of t current_time]
    by blast
  with assms(1) show ?thesis
    by (simp add: verify_otp_def)
qed

theorem verify_otp_expired_clears_challenge_witness:
  "users db_challenged ''a@x.com'' = Some \<lparr>otp = Some ''012345'', timestamp = Some 1000\<rparr> \<and>
   is_double 1000 \<and> is_double 1181 \<and> (180::real) \<le> 1000 \<and> (1000::real) + 180 < 1181 \<and>
   verify_otp ref_env 1181 1181 ''a@x.com'' ''012345'' db_challenged =
     (Inl (HTTPException 400 ''OTP expired''), db_registered) \<and>
   users db_challenged_early ''a@x.com'' =
     Some \<lparr>otp = Some ''012345'', timestamp = Some (3602879701896397 / 2 ^ 53)\<rparr> \<and>
   (3602879701896397 / 2 ^ 53 :: real) + 180 + 1 / 2 ^ 46 < 181 \<and>
   verify_otp ref_env 181 181 ''a@x.com'' ''012345'' db_challenged_early =
     (Inl (HTTPException 400 ''OTP expired''), db_registered)"
proof -
  have row: "users db_challenged ''a@x.com'' = Some \<lparr>otp = Some ''012345'', timestamp = Some 1000\<rparr>"
    by (simp add: db_challenged_eq)
  have doubles: "is_double 1000" "is_double 1181"
    using is_double_int [of 1000] is_double_int [of 1181] by simp_all
  have late: "(180::real) \<le> 1000" "(1000::real) + 180 < 1181"
    by simp_all
  have cleared:
    "db_challenged\<lparr>users := (users db_challenged)(''a@x.com'' \<mapsto> \<lparr>otp = None, timestamp = None\<rparr>)\<rparr> =
     db_registered"
    by (simp add: db_challenged_eq db_registered_eq)
  have run: "verify_otp ref_env 1181 1181 ''a@x.com'' ''012345'' db_challenged =
     (Inl (HTTPException 400 ''OTP expired''), db_registered)"
    using verify_otp_expired_clears_challenge
      [OF row, where current_time = 1181 and e = ref_env and utcnow = 1181 and code = "''012345''"]
      doubles late
    by (simp add: cleared)
  have row': "users db_challenged_early ''a@x.com'' =
     Some \<lparr>otp = Some ''012345'', timestamp = Some (3602879701896397 / 2 ^ 53)\<rparr>"
    by (simp add: db_challenged_early_eq)
  have late': "(3602879701896397 / 2 ^ 53 :: real) + 180 + 1 / 2 ^ 46 < 181"
    by simp
  have cleared':
    "db_challenged_early
       \<lparr>users := (users db_challenged_early)(''a@x.com'' \<mapsto> \<lparr>otp = None, timestamp = None\<rparr>)\<rparr> =
     db_registered"
    by (simp add: db_challenged_early_eq db_registered_eq)
  have run': "verify_otp ref_env 181 181 ''a@x.com'' ''012345'' db_challenged_early =
     (Inl (HTTPException 400 ''OTP expired''), db_registered)"
    using verify_otp_expired_clears_challenge
      [OF row', where current_time = 181 and e = ref_env and utcnow = 181 and code = "''012345''"]
      late'
    by (simp only: cleared' simp_thms)
  from row doubles late run row' late' run' show ?thesis
    by blast
qed

text \<open>
  C4, as the claim has it, fails. The code was stored at the double nearest to 0.4 and is
  redeemed at the double nearest to 180.4, which is later than \<open>t + 180\<close>; the difference of the
  two doubles rounds to exactly 180, which is not greater than 180, and the handler goes on
  to compare the code and redeems it.
\<close>

theorem verify_otp_later_than_180_counterexample:
  "users db_challenged_early ''a@x.com'' =
     Some \<lparr>otp = Some ''012345'', timestamp = Some (3602879701896397 / 2 ^ 53)\<rparr> \<and>
   is_double (3602879701896397 / 2 ^ 53) \<and> is_double (6347260724825293 / 2 ^ 45) \<and>
   (3602879701896397 / 2 ^ 53 :: real) + 180 < 6347260724825293 / 2 ^ 45 \<and>
   verify_otp ref_env (6347260724825293 / 2 ^ 45) 181 ''a@x.com'' ''012345'' db_challenged_early =
     (Inr (Bearer
        (ref_encode [(''sub'', PyStr ''a@x.com''), (''exp'', PyDatetime 1981)]
           ''your_secret_key'' ''HS256'')
        ''bearer''),
      db_registered)"
proof (intro conjI)
  show "users db_challenged_early ''a@x.com'' =
     Some \<lparr>otp = Some ''012345'', timestamp = Some (3602879701896397 / 2 ^ 53)\<rparr>"
    by (simp add: db_challenged_early_eq)
  show "is_double (3602879701896397 / 2 ^ 53)"
    by (rule is_double_near_04)
  show "is_double (6347260724825293 / 2 ^ 45)"
    by (rule is_double_near_1804)
  show "(3602879701896397 / 2 ^ 53 :: real) + 180 < 6347260724825293 / 2 ^ 45"
    by simp
  show "verify_otp ref_env (6347260724825293 / 2 ^ 45) 181 ''a@x.com'' ''012345''
       db_challenged_early =
     (Inr (Bearer
        (ref_encode [(''sub'', PyStr ''a@x.com''), (''exp'', PyDatetime 1981)]
           ''your_secret_key'' ''HS256'')
        ''bearer''),
      db_registered)"
    by (simp add: verify_otp_def db_challenged_early_eq db_registered_eq float_sub_gt_180_iff
        create_access_token_def ref_env_def ALGORITHM_def timedelta_minutes_def
        ACCESS_TOKEN_EXPIRE_MINUTES_def)
qed

text \<open>
  C5. A pending challenge issued at \<open>t\<close>, and a supplied code other than the stored one at a
  time not later than \<open>t + 180\<close>: the handler raises HTTP 400 "Invalid OTP" and the database
  is as it was, so that the stored code, supplied at any time not later than \<open>t + 180\<close>, is
  still redeemed.
\<close>

theorem verify_otp_mismatch_keeps_challenge:
  assumes "users d email = Some \<lparr>otp = Some stored, timestamp = Some t\<rparr>"
    and "current_time \<le> t + 180"
    and "code \<noteq> stored"
    and "later \<le> t + 180"
  shows "verify_otp e current_time utcnow email code d =
           (Inl (HTTPException 400 ''Invalid OTP''), d) \<and>
         verify_otp e later utcnow' email stored
             (snd (verify_otp e current_time utcnow email code d)) =
           (Inr (Bearer
              (create_access_token e [(''sub'', PyStr email)]
                 (Some (timedelta_minutes ACCESS_TOKEN_EXPIRE_MINUTES)) utcnow')
              ''bearer''),
            d\<lparr>users := (users d)(email \<mapsto> \<lparr>otp = None, timestamp = None\<rparr>)\<rparr>)"
  using assms by (simp add: verify_otp_def float_sub_le_180)

theorem verify_otp_mismatch_keeps_challenge_witness:
  "users db_challenged ''a@x.com'' = Some \<lparr>otp = Some ''012345'', timestamp = Some 1000\<rparr> \<and>
   (1030::real) \<le> 1000 + 180 \<and> ''999999'' \<noteq> ''012345'' \<and> (1060::real) \<le> 1000 + 180 \<and>
   verify_otp ref_env 1030 1030 ''a@x.com'' ''999999'' db_challenged =
     (Inl (HTTPException 400 ''Invalid OTP''), db_challenged) \<and>
   verify_otp ref_env 1060 1060 ''a@x.com'' ''012345''
       (snd (verify_otp ref_env 1030 1030 ''a@x.com'' ''999999'' db_challenged)) =
     (Inr (Bearer
        (create_access_token ref_env [(''sub'', PyStr ''a@x.com'')]
           (Some (timedelta_minutes ACCESS_TOKEN_EXPIRE_MINUTES)) 1060)
        ''bearer''),
      db_registered)"
proof -
  have row: "users db_challenged ''a@x.com'' = Some \<lparr>otp = Some ''012345'', timestamp = Some 1000\<rparr>"
    by (simp add: db_challenged_eq)
  have t1: "(1030::real) \<le> 1000 + 180" and t2: "(1060::real) \<le> 1000 + 180"
    by simp_all
  have neq: "''999999'' \<noteq> ''012345''"
    by simp
  have cleared:
    "db_challenged\<lparr>users := (users db_challenged)(''a@x.com'' \<mapsto> \<lparr>otp = None, timestamp = None\<rparr>)\<rparr> =
     db_registered"
    by (simp add: db_challenged_eq db_registered_eq)
  note run = verify_otp_mismatch_keeps_challenge
    [OF row t1 neq t2, where e = ref_env and utcnow = 1030 and utcnow' = 1060, unfolded cleared]
  from run row t1 neq t2 show ?thesis by blast
qed

text \<open>
  C6. A pending challenge issued at \<open>t\<close>, and the stored code supplied at a time not later than
  \<open>t + 180\<close>: the handler sets \<open>otp\<close> and \<open>timestamp\<close> to NULL and returns, as a bearer token,
  what the library's \<open>encode\<close> makes under the secret key and HS256 of the payload whose
  \<open>sub\<close> is the email and whose \<open>exp\<close> is the reading of \<open>datetime.utcnow()\<close> plus 30
  minutes (1800 seconds).
\<close>

theorem verify_otp_success_mints_credential:
  assumes "users d email = Some \<lparr>otp = Some stored, timestamp = Some t\<rparr>"
    and "current_time \<le> t + 180"
  shows "verify_otp e current_time utcnow email stored d =
     (Inr (Bearer
        (jwt_encode e [(''sub'', PyStr email), (''exp'', PyDatetime (utcnow + 30 * 60))]
           (SECRET_KEY e) ''HS256'')
        ''bearer''),
      d\<lparr>users := (users d)(email \<mapsto> \<lparr>otp = None, timestamp = None\<rparr>)\<rparr>)"
  using assms
  by (simp add: verify_otp_def create_access_token_def ALGORITHM_def timedelta_minutes_def
      ACCESS_TOKEN_EXPIRE_MINUTES_def float_sub_le_180)

theorem verify_otp_success_mints_credential_witness:
  "users db_challenged ''a@x.com'' = Some \<lparr>otp = Some ''012345'', timestamp = Some 1000\<rparr> \<and>
   (1180::real) \<le> 1000 + 180 \<and>
   verify_otp ref_env 1180 1180 ''a@x.com'' ''012345'' db_challenged =
     (Inr (Bearer
        (ref_encode [(''sub'', PyStr ''a@x.com''), (''exp'', PyDatetime 2980)]
           ''your_secret_key'' ''HS256'')
        ''bearer''),
      db_registered) \<and>
   users db_registered ''a@x.com'' = Some \<lparr>otp = None, timestamp = None\<rparr>"
proof -
  have row: "users db_challenged ''a@x.com'' = Some \<lparr>otp = Some ''012345'', timestamp = Some 1000\<rparr>"
    by (simp add: db_challenged_eq)
  have in_time: "(1180::real) \<le> 1000 + 180"
    by simp
  have cleared:
    "db_challenged\<lparr>users := (users db_challenged)(''a@x.com'' \<mapsto> \<lparr>otp = None, timestamp = None\<rparr>)\<rparr> =
     db_registered"
    by (simp add: db_challenged_eq db_registered_eq)
  have "verify_otp ref_env 1180 1180 ''a@x.com'' ''012345'' db_challenged =
     (Inr (Bearer
        (ref_encode [(''sub'', PyStr ''a@x.com''), (''exp'', PyDatetime 2980)]
           ''your_secret_key'' ''HS256'')
        ''bearer''),
      db_registered)"
    using verify_otp_success_mints_credential [OF row in_time, of ref_env 1180]
    by (simp add: cleared ref_env_def)
  with row in_time show ?thesis by (simp add: db_registered_eq)
qed

section \<open>The credential codec\<close>

text \<open>
  What the service makes of the library's two answers for a token it minted itself.
\<close>

lemma minted_token_payload:
  "create_access_token e [(''sub'', PyStr s)] (Some ttl) utcnow =
     jwt_encode e
       [(''sub'', PyStr s),
        (''exp'', PyDatetime
           (if ttl \<noteq> 0 then utcnow + ttl
            else utcnow + timedelta_minutes ACCESS_TOKEN_EXPIRE_MINUTES))]
       (SECRET_KEY e) ALGORITHM"
  by (simp add: create_access_token_def)

lemma minted_token_refused_from_exp:
  assumes "pyjwt_mint_verify e" and "ttl \<noteq> 0" and "of_int \<lfloor>utcnow + ttl\<rfloor> \<le> now"
  shows "verify_token e now (create_access_token e [(''sub'', PyStr s)] (Some ttl) utcnow) =
     Inl (HTTPException 401 ''Invalid token'')"
  using assms unfolding pyjwt_mint_verify_def
  by (simp add: minted_token_payload verify_token_def)

text \<open>
  C9, as the code has it. With a token library that does with the service's tokens what
  \<open>pyjwt_mint_verify\<close> says: the token that \<open>create_access_token\<close> mints for the subject
  \<open>s\<close> with the duration \<open>ttl\<close> at the clock reading \<open>utcnow\<close>, handed to \<open>verify_token\<close>
  while the clock is before the whole seconds of \<open>utcnow + ttl\<close>, which is the \<open>exp\<close> the
  token carries, gives back \<open>s\<close>. (For \<open>ttl = 0\<close> the code takes 30 minutes instead, which is
  later still.)
\<close>

theorem verify_token_create_access_token:
  assumes "pyjwt_mint_verify e"
    and "now < of_int \<lfloor>utcnow + ttl\<rfloor>"
  shows "verify_token e now (create_access_token e [(''sub'', PyStr s)] (Some ttl) utcnow) =
     Inr (PyStr s)"
proof -
  define expire where
    "expire = (if ttl \<noteq> 0 then utcnow + ttl
               else utcnow + timedelta_minutes ACCESS_TOKEN_EXPIRE_MINUTES)"
  have "utcnow + ttl \<le> expire"
    by (simp add: expire_def timedelta_minutes_def ACCESS_TOKEN_EXPIRE_MINUTES_def)
  then have "\<lfloor>utcnow + ttl\<rfloor> \<le> \<lfloor>expire\<rfloor>"
    by (rule floor_mono)
  then have "real_of_int \<lfloor>utcnow + ttl\<rfloor> \<le> of_int \<lfloor>expire\<rfloor>"
    by (simp only: of_int_le_iff)
  with assms(2) have ahead: "\<not> of_int \<lfloor>expire\<rfloor> \<le> now"
    by linarith
  have "jwt_decode e
          (jwt_encode e [(''sub'', PyStr s), (''exp'', PyDatetime expire)] (SECRET_KEY e) ALGORITHM)
          (SECRET_KEY e) [ALGORITHM] now =
        Inr [(''sub'', PyStr s), (''exp'', PyInt \<lfloor>expire\<rfloor>)]"
    using assms(1) ahead unfolding pyjwt_mint_verify_def by simp
  then show ?thesis
    by (simp add: minted_token_payload verify_token_def expire_def)
qed

theorem verify_token_create_access_token_witness:
  "pyjwt_mint_verify ref_env \<and> (28599 / 10 :: real) < of_int \<lfloor>10609 / 10 + 1800 :: real\<rfloor> \<and>
   verify_token ref_env (28599 / 10)
     (create_access_token ref_env [(''sub'', PyStr ''a@x.com'')] (Some 1800) (10609 / 10)) =
   Inr (PyStr ''a@x.com'')"
proof -
  have before: "(28599 / 10 :: real) < of_int \<lfloor>10609 / 10 + 1800 :: real\<rfloor>"
    by simp
  from verify_token_create_access_token [OF pyjwt_mint_verify_ref_env before, of "''a@x.com''"]
    pyjwt_mint_verify_ref_env before
  show ?thesis by blast
qed

text \<open>
  C9, as the claim has it, fails. A token minted at 1060.9 for 1800 seconds expires at
  2860.9 by the claim, but the token carries \<open>exp = 2860\<close>: at 2860.5, before 2860.9, the
  library raises \<open>ExpiredSignatureError\<close> and \<open>verify_token\<close> raises HTTP 401 "Invalid token".
\<close>

theorem verify_token_before_expiry_instant_counterexample:
  "pyjwt_mint_verify ref_env \<and> (5721 / 2 :: real) < 10609 / 10 + 1800 \<and>
   verify_token ref_env (5721 / 2)
     (create_access_token ref_env [(''sub'', PyStr ''a@x.com'')] (Some 1800) (10609 / 10)) =
   Inl (HTTPException 401 ''Invalid token'')"
proof -
  have "real_of_int \<lfloor>10609 / 10 + 1800 :: real\<rfloor> \<le> 5721 / 2"
    by simp
  from minted_token_refused_from_exp [OF pyjwt_mint_verify_ref_env _ this, of "''a@x.com''"]
    pyjwt_mint_verify_ref_env
  show ?thesis by simp
qed

text \<open>
  C10. A token that the library decodes under the secret key and HS256 (so its signature and
  expiry passed) into a payload without \<open>sub\<close>: \<open>verify_token\<close> raises HTTP 401
  "Invalid token", which is what it raises for every token the library refuses; it returns
  no subject.
\<close>

theorem verify_token_without_sub_is_invalid:
  assumes "jwt_decode e token (SECRET_KEY e) [ALGORITHM] now = Inr p"
    and "map_of p ''sub'' = None"
  shows "verify_token e now token = Inl (HTTPException 401 ''Invalid token'') \<and>
         (jwt_decode e token' (SECRET_KEY e) [ALGORITHM] now' = Inl err \<longrightarrow>
            verify_token e now' token' = verify_token e now token)"
  using assms by (simp add: verify_token_def)

theorem verify_token_without_sub_is_invalid_witness:
  "jwt_decode ref_env anonymous_token (SECRET_KEY ref_env) [ALGORITHM] 1060 = Inr [(''exp'', PyInt 5000)] \<and>
   map_of [(''exp'', PyInt 5000)] ''sub'' = None \<and>
   verify_token ref_env 1060 anonymous_token = Inl (HTTPException 401 ''Invalid token'') \<and>
   jwt_decode ref_env forged_token (SECRET_KEY ref_env) [ALGORITHM] 1060 = Inl InvalidSignatureError \<and>
   verify_token ref_env 1060 forged_token = verify_token ref_env 1060 anonymous_token"
proof -
  have decoded:
    "jwt_decode ref_env anonymous_token (SECRET_KEY ref_env) [ALGORITHM] 1060 = Inr [(''exp'', PyInt 5000)]"
    using ref_decode_ref_encode
      [where p = "[(''exp'', PyDatetime 5000)]" and t = 5000 and now = 1060
         and key = "''your_secret_key''" and alg = ALGORITHM]
    by (simp add: anonymous_token_def ref_env_def)
  have no_sub: "map_of [(''exp'', PyInt 5000)] ''sub'' = None"
    by simp
  have refused:
    "jwt_decode ref_env forged_token (SECRET_KEY ref_env) [ALGORITHM] 1060 = Inl InvalidSignatureError"
    by (simp add: forged_token_decode)
  from verify_token_without_sub_is_invalid [OF decoded no_sub, of forged_token 1060 InvalidSignatureError]
    decoded no_sub refused
  show ?thesis by blast
qed

section \<open>Checking a credential\<close>

text \<open>
  C3, as the code has it. A revoked token and a token whose signature the library refuses
  both get HTTP status 401, but with different details: "Token has been revoked" for the
  first, "Invalid token" for the second (and for every other refusal of the library). The
  caller can tell which check failed.
\<close>

theorem token_check_revoked_and_invalid_details:
  "(token \<in> blacklisted_tokens d \<longrightarrow>
      token_check e now token d = Inl (HTTPException 401 ''Token has been revoked'')) \<and>
   (token \<notin> blacklisted_tokens d \<and>
    jwt_decode e token (SECRET_KEY e) [ALGORITHM] now = Inl err \<longrightarrow>
      token_check e now token d = Inl (HTTPException 401 ''Invalid token''))"
  by (simp add: token_check_def is_token_blacklisted_def verify_token_def)

theorem token_check_revoked_and_invalid_details_witness:
  "forged_token \<in> blacklisted_tokens (snd (logout forged_token empty_db)) \<and>
   token_check ref_env 1060 forged_token (snd (logout forged_token empty_db)) =
     Inl (HTTPException 401 ''Token has been revoked'') \<and>
   forged_token \<notin> blacklisted_tokens empty_db \<and>
   jwt_decode ref_env forged_token (SECRET_KEY ref_env) [ALGORITHM] 1060 = Inl InvalidSignatureError \<and>
   token_check ref_env 1060 forged_token empty_db = Inl (HTTPException 401 ''Invalid token'')"
proof -
  have revoked: "forged_token \<in> blacklisted_tokens (snd (logout forged_token empty_db))"
    by (simp add: logout_def empty_db_def)
  have fresh: "forged_token \<notin> blacklisted_tokens empty_db"
    by (simp add: empty_db_def)
  have refused:
    "jwt_decode ref_env forged_token (SECRET_KEY ref_env) [ALGORITHM] 1060 = Inl InvalidSignatureError"
    by (simp add: forged_token_decode)
  from token_check_revoked_and_invalid_details
         [of forged_token "snd (logout forged_token empty_db)" ref_env 1060 InvalidSignatureError]
       token_check_revoked_and_invalid_details
         [of forged_token empty_db ref_env 1060 InvalidSignatureError]
       revoked fresh refused
  show ?thesis by blast
qed

text \<open>
  C3, as the claim has it, fails: for the token with the forged signature, the failure when
  it is revoked and the failure when it is not are different values.
\<close>

theorem token_check_revoked_vs_invalid_counterexample:
  "jwt_decode ref_env forged_token (SECRET_KEY ref_env) [ALGORITHM] 1060 = Inl InvalidSignatureError \<and>
   token_check ref_env 1060 forged_token (snd (logout forged_token empty_db)) =
     Inl (HTTPException 401 ''Token has been revoked'') \<and>
   token_check ref_env 1060 forged_token empty_db = Inl (HTTPException 401 ''Invalid token'') \<and>
   token_check ref_env 1060 forged_token (snd (logout forged_token empty_db)) \<noteq>
     token_check ref_env 1060 forged_token empty_db"
  by (simp add: token_check_def is_token_blacklisted_def verify_token_def logout_def empty_db_def
      forged_token_decode)

end
